theory Spec2Isabelle
  imports Main "HOL-Library.Sublist"
begin

section \<open>The Windows updater migration of new\_updater.py\<close>

text \<open>
  The module replaces the updater script and the launcher batch file of a previously
  installed standalone package by the ones shipped with the current release, and then
  patches the optional dependency batch file. Everything it does is file I/O, so the
  embedding threads a world through every method: the files on disk and the trace of
  the effects that happened (successful writes, successful copies, printed lines).
\<close>

subsection \<open>Paths and byte strings\<close>

text \<open>
  A \<open>pathlib.Path\<close> is its list of components; \<open>p / name\<close> appends a component and
  \<open>p.parent\<close> drops the last one (the parent of the root is the root). A \<open>bytes\<close>
  value is a list of 8-bit characters.
\<close>

type_synonym path = "string list"
type_synonym bytes = "char list"

definition joinpath :: "path \<Rightarrow> string \<Rightarrow> path" where
  "joinpath p name = p @ [name]"

definition parent :: "path \<Rightarrow> path" where
  "parent p = butlast p"

text \<open>The backslash, which a string literal cannot hold.\<close>

definition bslash :: char where
  "bslash = CHR 0x5C"

subsection \<open>Exceptions\<close>

text \<open>
  The I/O calls raise \<open>OSError\<close> or one of its subclasses; the module adds
  \<open>UpdaterError\<close>, whose message is one of three format strings:
  \<^item> \<open>SourceUpdaterNotFound p\<close>: \<^verbatim>\<open>Source updater file not found: {p}\<close>
  \<^item> \<open>SourceBatNotFound p\<close>: \<^verbatim>\<open>Source batch file not found: {p}\<close>
  \<^item> \<open>FailedToCopy e\<close>: \<^verbatim>\<open>Failed to copy files: {e}\<close>
\<close>

datatype os_exn = FileNotFoundError path | PermissionError path | OtherOSError path

datatype updater_msg =
    SourceUpdaterNotFound path
  | SourceBatNotFound path
  | FailedToCopy os_exn

datatype exn = OS os_exn | UpdaterError updater_msg

datatype exn_class = CFileNotFoundError | CPermissionError | COSError | CUpdaterError

fun class_of :: "exn \<Rightarrow> exn_class" where
  "class_of (OS (FileNotFoundError _)) = CFileNotFoundError"
| "class_of (OS (PermissionError _)) = CPermissionError"
| "class_of (OS (OtherOSError _)) = COSError"
| "class_of (UpdaterError _) = CUpdaterError"

text \<open>\<open>FileNotFoundError\<close> and \<open>PermissionError\<close> are subclasses of \<open>OSError\<close>.\<close>

fun is_subclass :: "exn_class \<Rightarrow> exn_class \<Rightarrow> bool" where
  "is_subclass CFileNotFoundError COSError = True"
| "is_subclass CPermissionError COSError = True"
| "is_subclass c d = (c = d)"

text \<open>An \<^verbatim>\<open>except (A, B, ...)\<close> clause catches an instance of any listed class.\<close>

definition isinstance :: "exn \<Rightarrow> exn_class list \<Rightarrow> bool" where
  "isinstance e cs = list_ex (is_subclass (class_of e)) cs"

datatype 'a outcome = Return 'a | Raise exn

subsection \<open>The file system\<close>

text \<open>
  Each path holds either no file or a regular file with its content. An I/O call can
  fail for reasons outside the program (a missing directory, permissions, a device
  error), so every node also says how a read and how a write of it fails, if it does:
  \<^item> \<open>Absent cf\<close>: no file; creating one fails with \<open>cf\<close> when \<open>cf\<close> is not \<open>None\<close>;
  \<^item> \<open>File c rf wf\<close>: a file with content \<open>c\<close>; reading it fails with \<open>rf\<close>, writing
    it with \<open>wf\<close>.
  A failed call leaves the node as it was.
\<close>

datatype failure = NotFound | Denied | OtherIO

datatype node = Absent "failure option" | File bytes "failure option" "failure option"

fun os_error :: "failure \<Rightarrow> path \<Rightarrow> exn" where
  "os_error NotFound p = OS (FileNotFoundError p)"
| "os_error Denied p = OS (PermissionError p)"
| "os_error OtherIO p = OS (OtherOSError p)"

text \<open>
  The printed lines:
  \<^item> \<open>UpdateFailed m\<close>: \<^verbatim>\<open>Update failed: {m}\<close>
  \<^item> \<open>WriteWarning p e\<close>: \<^verbatim>\<open>Warning: Could not write to {p}: {e}\<close>
  \<^item> \<open>UpdatedOK\<close>: \<^verbatim>\<open>Updated the windows standalone package updater.\<close>
\<close>

datatype line = UpdateFailed updater_msg | WriteWarning path exn | UpdatedOK

datatype event = Wrote path bytes | Copied path path | Printed line

record world =
  files :: "path \<Rightarrow> node"
  trace :: "event list"

text \<open>
  \<open>Path.exists()\<close>, which answers for every path; \<open>print\<close> below always succeeds as
  well.
\<close>

definition exists_path :: "path \<Rightarrow> world \<Rightarrow> bool" where
  "exists_path p w = (case files w p of Absent _ \<Rightarrow> False | File _ _ _ \<Rightarrow> True)"

text \<open>\<open>Path.read_bytes()\<close>.\<close>

definition read_bytes :: "path \<Rightarrow> world \<Rightarrow> bytes outcome" where
  "read_bytes p w =
     (case files w p of
        Absent _ \<Rightarrow> Raise (os_error NotFound p)
      | File c None _ \<Rightarrow> Return c
      | File c (Some f) _ \<Rightarrow> Raise (os_error f p))"

text \<open>
  Storing content at a path, shared by \<open>write_bytes\<close> and \<open>copy2\<close>: the new node, or
  the exception of the failed open.
\<close>

definition store :: "path \<Rightarrow> bytes \<Rightarrow> world \<Rightarrow> node outcome" where
  "store p c w =
     (case files w p of
        Absent None \<Rightarrow> Return (File c None None)
      | Absent (Some f) \<Rightarrow> Raise (os_error f p)
      | File _ rf None \<Rightarrow> Return (File c rf None)
      | File _ _ (Some f) \<Rightarrow> Raise (os_error f p))"

text \<open>\<open>Path.write_bytes(content)\<close>.\<close>

definition write_bytes :: "path \<Rightarrow> bytes \<Rightarrow> world \<Rightarrow> unit outcome \<times> world" where
  "write_bytes p c w =
     (case store p c w of
        Raise e \<Rightarrow> (Raise e, w)
      | Return n \<Rightarrow>
          (Return (), w\<lparr>files := (files w)(p := n), trace := trace w @ [Wrote p c]\<rparr>))"

text \<open>
  \<open>shutil.copy2(src, dst)\<close>: read the source, then write the destination (the file
  metadata that \<open>copy2\<close> also copies is not part of a node).
\<close>

definition copy2 :: "path \<Rightarrow> path \<Rightarrow> world \<Rightarrow> unit outcome \<times> world" where
  "copy2 src dst w =
     (case read_bytes src w of
        Raise e \<Rightarrow> (Raise e, w)
      | Return c \<Rightarrow>
          (case store dst c w of
             Raise e \<Rightarrow> (Raise e, w)
           | Return n \<Rightarrow>
               (Return (), w\<lparr>files := (files w)(dst := n), trace := trace w @ [Copied src dst]\<rparr>)))"

definition print :: "line \<Rightarrow> world \<Rightarrow> world" where
  "print l w = w\<lparr>trace := trace w @ [Printed l]\<rparr>"

subsection \<open>bytes.replace\<close>

text \<open>
  \<open>s.replace(old, new)\<close> replaces the occurrences of \<open>old\<close> found scanning from the
  left, without overlap; with an empty \<open>old\<close> it puts \<open>new\<close> before every byte and at
  the end.
\<close>

function bytes_replace :: "bytes \<Rightarrow> bytes \<Rightarrow> bytes \<Rightarrow> bytes" where
  "bytes_replace [] old new = (if old = [] then new else [])"
| "bytes_replace (c # cs) old new =
     (if old = [] then new @ c # bytes_replace cs old new
      else if prefix old (c # cs) then new @ bytes_replace (drop (length old) (c # cs)) old new
      else c # bytes_replace cs old new)"
  by pat_completeness auto
termination
  by (relation "measure (\<lambda>(s, old, new). length s)") auto

subsection \<open>class WindowsUpdater\<close>

definition EXPECTED_BAT_PREFIX :: bytes where
  "EXPECTED_BAT_PREFIX =
     ''..'' @ bslash # ''python_embeded'' @ bslash # ''python.exe .'' @ bslash # ''update.py''"

definition OLD_CONTENT :: bytes where
  "OLD_CONTENT =
     ''..'' @ bslash # ''python_embeded'' @ bslash # ''python.exe .'' @ bslash # ''update.py ..''
       @ bslash # ''ComfyUI'' @ [bslash]"

definition NEW_CONTENT :: bytes where
  "NEW_CONTENT = ''call update_comfyui.bat nopause''"

record updater =
  base_path :: path
  top_path :: path
  source_updater :: path
  source_bat :: path
  dest_updater :: path
  dest_bat :: path
  dest_bat_deps :: path

text \<open>The constructor \<open>__init__(self, base_path)\<close>.\<close>

definition WindowsUpdater :: "path \<Rightarrow> updater" where
  "WindowsUpdater bp =
     (let top = parent bp in
      \<lparr> base_path = bp,
        top_path = top,
        source_updater = joinpath (joinpath (joinpath bp ''.ci'') ''update_windows'') ''update.py'',
        source_bat =
          joinpath (joinpath (joinpath bp ''.ci'') ''update_windows'') ''update_comfyui.bat'',
        dest_updater = joinpath (joinpath top ''update'') ''update.py'',
        dest_bat = joinpath (joinpath top ''update'') ''update_comfyui.bat'',
        dest_bat_deps =
          joinpath (joinpath top ''update'') ''update_comfyui_and_python_dependencies.bat'' \<rparr>)"

definition validate_paths :: "updater \<Rightarrow> world \<Rightarrow> unit outcome" where
  "validate_paths u w =
     (if \<not> exists_path (source_updater u) w
        then Raise (UpdaterError (SourceUpdaterNotFound (source_updater u)))
      else if \<not> exists_path (source_bat u) w
        then Raise (UpdaterError (SourceBatNotFound (source_bat u)))
      else Return ())"

definition read_file_content :: "path \<Rightarrow> world \<Rightarrow> bytes option outcome" where
  "read_file_content file_path w =
     (case read_bytes file_path w of
        Return c \<Rightarrow> Return (Some c)
      | Raise e \<Rightarrow>
          if isinstance e [CFileNotFoundError, CPermissionError, COSError]
          then Return None else Raise e)"

definition write_file_content :: "path \<Rightarrow> bytes \<Rightarrow> world \<Rightarrow> bool outcome \<times> world" where
  "write_file_content file_path content w =
     (case write_bytes file_path content w of
        (Return _, w') \<Rightarrow> (Return True, w')
      | (Raise e, w') \<Rightarrow>
          if isinstance e [CPermissionError, COSError]
          then (Return False, print (WriteWarning file_path e) w')
          else (Raise e, w'))"

definition should_update :: "updater \<Rightarrow> world \<Rightarrow> bool outcome" where
  "should_update u w =
     (case read_file_content (dest_bat u) w of
        Raise e \<Rightarrow> Raise e
      | Return None \<Rightarrow> Return False
      | Return (Some content) \<Rightarrow> Return (prefix EXPECTED_BAT_PREFIX content))"

definition update_dependencies_file :: "updater \<Rightarrow> world \<Rightarrow> unit outcome \<times> world" where
  "update_dependencies_file u w =
     (case read_file_content (dest_bat_deps u) w of
        Raise e \<Rightarrow> (Raise e, w)
      | Return None \<Rightarrow> (Return (), w)
      | Return (Some content) \<Rightarrow>
          (let updated_content = bytes_replace content OLD_CONTENT NEW_CONTENT in
           case write_file_content (dest_bat_deps u) updated_content w of
             (Raise e, w') \<Rightarrow> (Raise e, w')
           | (Return _, w') \<Rightarrow> (Return (), w')))"

text \<open>
  The \<^verbatim>\<open>try\<close> block of \<open>_copy_files\<close> and its handler, which turns every
  \<open>OSError\<close> into an \<open>UpdaterError\<close>.
\<close>

definition copy_files_try :: "updater \<Rightarrow> world \<Rightarrow> unit outcome \<times> world" where
  "copy_files_try u w =
     (case copy2 (source_updater u) (dest_updater u) w of
        (Raise e, w') \<Rightarrow> (Raise e, w')
      | (Return _, w') \<Rightarrow> copy2 (source_bat u) (dest_bat u) w')"

definition copy_files :: "updater \<Rightarrow> world \<Rightarrow> unit outcome \<times> world" where
  "copy_files u w =
     (case copy_files_try u w of
        (Return x, w') \<Rightarrow> (Return x, w')
      | (Raise e, w') \<Rightarrow>
          if isinstance e [CFileNotFoundError, CPermissionError, COSError]
          then (case e of
                  OS oe \<Rightarrow> (Raise (UpdaterError (FailedToCopy oe)), w')
                | UpdaterError m \<Rightarrow> (Raise e, w'))
          else (Raise e, w'))"

text \<open>The \<^verbatim>\<open>try\<close> block of \<open>update\<close>.\<close>

definition update_try :: "updater \<Rightarrow> world \<Rightarrow> bool outcome \<times> world" where
  "update_try u w =
     (case validate_paths u w of
        Raise e \<Rightarrow> (Raise e, w)
      | Return _ \<Rightarrow>
          (case should_update u w of
             Raise e \<Rightarrow> (Raise e, w)
           | Return b \<Rightarrow>
               if \<not> b then (Return False, w)
               else
                 (case copy_files u w of
                    (Raise e, w1) \<Rightarrow> (Raise e, w1)
                  | (Return _, w1) \<Rightarrow>
                      (case update_dependencies_file u w1 of
                         (Raise e, w2) \<Rightarrow> (Raise e, w2)
                       | (Return _, w2) \<Rightarrow> (Return True, print UpdatedOK w2)))))"

definition update :: "updater \<Rightarrow> world \<Rightarrow> bool outcome \<times> world" where
  "update u w =
     (case update_try u w of
        (Return b, w') \<Rightarrow> (Return b, w')
      | (Raise e, w') \<Rightarrow>
          (case e of
             UpdaterError m \<Rightarrow> (Return False, print (UpdateFailed m) w')
           | OS oe \<Rightarrow> (Raise e, w')))"

text \<open>
  The module's entry point; the module-level \<open>base_path\<close> (the directory of the source
  file) is its argument here.
\<close>

definition update_windows_updater :: "path \<Rightarrow> world \<Rightarrow> bool outcome \<times> world" where
  "update_windows_updater bp w = update (WindowsUpdater bp) w"

subsection \<open>Observing a run\<close>

text \<open>
  What a run of the entry point added to the trace, the paths it wrote (by
  \<open>write_bytes\<close> or as the destination of \<open>copy2\<close>) and the lines it printed.
\<close>

fun target :: "event \<Rightarrow> path option" where
  "target (Wrote p _) = Some p"
| "target (Copied _ dst) = Some dst"
| "target (Printed _) = None"

definition written_paths :: "event list \<Rightarrow> path list" where
  "written_paths es = List.map_filter target es"

fun printed_line :: "event \<Rightarrow> line option" where
  "printed_line (Printed l) = Some l"
| "printed_line _ = None"

definition printed :: "event list \<Rightarrow> line list" where
  "printed es = List.map_filter printed_line es"


text \<open>The content of a file that is there and can be read.\<close>

definition readable_content :: "path \<Rightarrow> world \<Rightarrow> bytes option" where
  "readable_content p w = (case files w p of File c None _ \<Rightarrow> Some c | _ \<Rightarrow> None)"

text \<open>
  The sentinel (the destination launcher batch file) is there, can be read and begins
  with the legacy prefix.
\<close>

definition eligible :: "updater \<Rightarrow> world \<Rightarrow> bool" where
  "eligible u w =
     (case files w (dest_bat u) of
        File c None _ \<Rightarrow> prefix EXPECTED_BAT_PREFIX c
      | _ \<Rightarrow> False)"


subsection \<open>A concrete installation\<close>

text \<open>
  An install root \<open>R\<close> with the application in \<open>R/app\<close>; the five files of the
  directory layout are given as arguments, every other path holds no file.
\<close>

definition demo_base :: path where
  "demo_base = [''R'', ''app'']"

definition demo_world :: "node \<Rightarrow> node \<Rightarrow> node \<Rightarrow> node \<Rightarrow> node \<Rightarrow> world" where
  "demo_world su sb du db deps =
     \<lparr> files = (\<lambda>_. Absent None)
         (source_updater (WindowsUpdater demo_base) := su,
          source_bat (WindowsUpdater demo_base) := sb,
          dest_updater (WindowsUpdater demo_base) := du,
          dest_bat (WindowsUpdater demo_base) := db,
          dest_bat_deps (WindowsUpdater demo_base) := deps),
       trace = [] \<rparr>"

definition new_launcher :: bytes where
  "new_launcher = ''@echo off''"

definition new_script :: bytes where
  "new_script = ''import pygit2''"

subsection \<open>Valid starting states\<close>

text \<open>
  A file that is there and can be read; a path that can be written (an existing file,
  or a new one). A valid starting state, in the words of the idempotence property:
  the sources are present, the sentinel is eligible and all I/O succeeds (the
  dependency batch file is optional).
\<close>

definition readable :: "path \<Rightarrow> world \<Rightarrow> bool" where
  "readable p w = (case files w p of File _ None _ \<Rightarrow> True | _ \<Rightarrow> False)"

definition writable :: "path \<Rightarrow> world \<Rightarrow> bool" where
  "writable p w = (case files w p of Absent None \<Rightarrow> True | File _ _ None \<Rightarrow> True | _ \<Rightarrow> False)"

definition valid_start :: "updater \<Rightarrow> world \<Rightarrow> bool" where
  "valid_start u w \<longleftrightarrow>
     readable (source_updater u) w \<and> readable (source_bat u) w \<and>
     eligible u w \<and>
     writable (dest_updater u) w \<and> writable (dest_bat u) w \<and>
     (exists_path (dest_bat_deps u) w \<longrightarrow>
        readable (dest_bat_deps u) w \<and> writable (dest_bat_deps u) w)"

text \<open>
  An installation whose release ships a launcher batch file that itself begins with
  the legacy prefix.
\<close>

definition legacy_release_world :: world where
  "legacy_release_world =
     demo_world (File new_script None None) (File OLD_CONTENT None None)
       (Absent None) (File OLD_CONTENT None None) (Absent None)"

section \<open>Properties\<close>

subsection \<open>The five paths\<close>

lemma app2_neq: "b \<noteq> d \<Longrightarrow> xs @ [a, b, c] \<noteq> ys @ [d, e]"
proof
  assume "b \<noteq> d" "xs @ [a, b, c] = ys @ [d, e]"
  then have "butlast (xs @ [a, b, c]) = butlast (ys @ [d, e])" by simp
  then have "last ((xs @ [a]) @ [b]) = last (ys @ [d])" by (simp add: butlast_append)
  then show False using \<open>b \<noteq> d\<close> by simp
qed

lemma path_distinct:
  fixes bp :: path
  shows "distinct [source_updater (WindowsUpdater bp), source_bat (WindowsUpdater bp),
     dest_updater (WindowsUpdater bp), dest_bat (WindowsUpdater bp), dest_bat_deps (WindowsUpdater bp)]"
  by (simp add: WindowsUpdater_def joinpath_def parent_def Let_def app2_neq)

lemma path_neqs:
  "source_updater (WindowsUpdater bp) \<noteq> source_bat (WindowsUpdater bp)"
  "source_updater (WindowsUpdater bp) \<noteq> dest_updater (WindowsUpdater bp)"
  "source_updater (WindowsUpdater bp) \<noteq> dest_bat (WindowsUpdater bp)"
  "source_updater (WindowsUpdater bp) \<noteq> dest_bat_deps (WindowsUpdater bp)"
  "source_bat (WindowsUpdater bp) \<noteq> source_updater (WindowsUpdater bp)"
  "source_bat (WindowsUpdater bp) \<noteq> dest_updater (WindowsUpdater bp)"
  "source_bat (WindowsUpdater bp) \<noteq> dest_bat (WindowsUpdater bp)"
  "source_bat (WindowsUpdater bp) \<noteq> dest_bat_deps (WindowsUpdater bp)"
  "dest_updater (WindowsUpdater bp) \<noteq> source_updater (WindowsUpdater bp)"
  "dest_updater (WindowsUpdater bp) \<noteq> source_bat (WindowsUpdater bp)"
  "dest_updater (WindowsUpdater bp) \<noteq> dest_bat (WindowsUpdater bp)"
  "dest_updater (WindowsUpdater bp) \<noteq> dest_bat_deps (WindowsUpdater bp)"
  "dest_bat (WindowsUpdater bp) \<noteq> source_updater (WindowsUpdater bp)"
  "dest_bat (WindowsUpdater bp) \<noteq> source_bat (WindowsUpdater bp)"
  "dest_bat (WindowsUpdater bp) \<noteq> dest_updater (WindowsUpdater bp)"
  "dest_bat (WindowsUpdater bp) \<noteq> dest_bat_deps (WindowsUpdater bp)"
  "dest_bat_deps (WindowsUpdater bp) \<noteq> source_updater (WindowsUpdater bp)"
  "dest_bat_deps (WindowsUpdater bp) \<noteq> source_bat (WindowsUpdater bp)"
  "dest_bat_deps (WindowsUpdater bp) \<noteq> dest_updater (WindowsUpdater bp)"
  "dest_bat_deps (WindowsUpdater bp) \<noteq> dest_bat (WindowsUpdater bp)"
  using path_distinct [of bp] by auto

subsection \<open>The helpers never let an exception of the I/O calls through\<close>

lemma isinstance_OS3 [simp]:
  "isinstance (OS oe) [CFileNotFoundError, CPermissionError, COSError]"
  by (cases oe) (simp_all add: isinstance_def)

lemma isinstance_OS2 [simp]:
  "isinstance (OS oe) [CPermissionError, COSError]"
  by (cases oe) (simp_all add: isinstance_def)

lemma not_isinstance_UpdaterError [simp]:
  "\<not> isinstance (UpdaterError m) [CFileNotFoundError, CPermissionError, COSError]"
  by (simp add: isinstance_def)

lemma isinstance_os_error3 [simp]:
  "isinstance (os_error f p) [CFileNotFoundError, CPermissionError, COSError]"
  by (cases f) simp_all

lemma isinstance_os_error2 [simp]:
  "isinstance (os_error f p) [CPermissionError, COSError]"
  by (cases f) simp_all

lemma os_error_is_OS: "\<exists>oe. os_error f p = OS oe"
  by (cases f) simp_all

lemma read_bytes_raises: "read_bytes p w = Raise e \<Longrightarrow> \<exists>oe. e = OS oe"
  using os_error_is_OS by (auto simp: read_bytes_def split: node.splits option.splits)

lemma store_raises: "store p c w = Raise e \<Longrightarrow> \<exists>oe. e = OS oe"
  using os_error_is_OS by (auto simp: store_def split: node.splits option.splits)

lemma read_file_content_eq: "read_file_content p w = Return (readable_content p w)"
  by (auto simp: read_file_content_def read_bytes_def readable_content_def
      split: node.splits option.splits)

lemma write_file_content_eq:
  "write_file_content p c w =
     (case store p c w of
        Return n \<Rightarrow> (Return True, w\<lparr>files := (files w)(p := n), trace := trace w @ [Wrote p c]\<rparr>)
      | Raise e \<Rightarrow> (Return False, print (WriteWarning p e) w))"
  by (auto simp: write_file_content_def write_bytes_def split: outcome.splits dest!: store_raises)


lemma should_update_eq: "should_update u w = Return (eligible u w)"
  by (auto simp: should_update_def read_file_content_eq readable_content_def eligible_def
      split: node.splits option.splits)

lemma update_dependencies_file_cases [case_names skipped written warned]:
  obtains
    (skipped) "readable_content (dest_bat_deps u) w = None"
      "update_dependencies_file u w = (Return (), w)"
  | (written) c n where "readable_content (dest_bat_deps u) w = Some c"
      "store (dest_bat_deps u) (bytes_replace c OLD_CONTENT NEW_CONTENT) w = Return n"
      "update_dependencies_file u w =
         (Return (), w\<lparr>files := (files w)(dest_bat_deps u := n),
            trace := trace w @ [Wrote (dest_bat_deps u) (bytes_replace c OLD_CONTENT NEW_CONTENT)]\<rparr>)"
  | (warned) c e where "readable_content (dest_bat_deps u) w = Some c"
      "store (dest_bat_deps u) (bytes_replace c OLD_CONTENT NEW_CONTENT) w = Raise e"
      "update_dependencies_file u w =
         (Return (), print (WriteWarning (dest_bat_deps u) e) w)"
proof (cases "readable_content (dest_bat_deps u) w")
  case None
  then show ?thesis
    using skipped by (simp add: update_dependencies_file_def read_file_content_eq)
next
  case (Some c)
  show ?thesis
  proof (cases "store (dest_bat_deps u) (bytes_replace c OLD_CONTENT NEW_CONTENT) w")
    case (Return n)
    with Some show ?thesis
      using written [of c n]
      by (simp add: update_dependencies_file_def read_file_content_eq write_file_content_eq)
  next
    case (Raise e)
    with Some show ?thesis
      using warned [of c e]
      by (simp add: update_dependencies_file_def read_file_content_eq write_file_content_eq)
  qed
qed

lemma copy2_Raise: "copy2 src dst w = (Raise e, w') \<Longrightarrow> w' = w \<and> (\<exists>oe. e = OS oe)"
  by (auto simp: copy2_def split: outcome.splits dest: read_bytes_raises store_raises)

lemma copy2_Return:
  "copy2 src dst w = (Return x, w') \<Longrightarrow>
     \<exists>c n. read_bytes src w = Return c \<and> store dst c w = Return n \<and>
       w' = w\<lparr>files := (files w)(dst := n), trace := trace w @ [Copied src dst]\<rparr>"
  by (auto simp: copy2_def split: outcome.splits)

lemma update_cases
  [case_names source_updater_missing source_bat_missing ineligible first_copy_failed
     second_copy_failed migrated]:
  obtains
    (source_updater_missing) "\<not> exists_path (source_updater u) w"
      "update u w = (Return False, print (UpdateFailed (SourceUpdaterNotFound (source_updater u))) w)"
  | (source_bat_missing) "exists_path (source_updater u) w" "\<not> exists_path (source_bat u) w"
      "update u w = (Return False, print (UpdateFailed (SourceBatNotFound (source_bat u))) w)"
  | (ineligible) "exists_path (source_updater u) w" "exists_path (source_bat u) w"
      "\<not> eligible u w" "update u w = (Return False, w)"
  | (first_copy_failed) oe where
      "exists_path (source_updater u) w" "exists_path (source_bat u) w" "eligible u w"
      "copy2 (source_updater u) (dest_updater u) w = (Raise (OS oe), w)"
      "update u w = (Return False, print (UpdateFailed (FailedToCopy oe)) w)"
      "copy_files u w = (Raise (UpdaterError (FailedToCopy oe)), w)"
  | (second_copy_failed) w1 oe where
      "exists_path (source_updater u) w" "exists_path (source_bat u) w" "eligible u w"
      "copy2 (source_updater u) (dest_updater u) w = (Return (), w1)"
      "copy2 (source_bat u) (dest_bat u) w1 = (Raise (OS oe), w1)"
      "update u w = (Return False, print (UpdateFailed (FailedToCopy oe)) w1)"
      "copy_files u w = (Raise (UpdaterError (FailedToCopy oe)), w1)"
  | (migrated) w1 w2 w3 where
      "exists_path (source_updater u) w" "exists_path (source_bat u) w" "eligible u w"
      "copy2 (source_updater u) (dest_updater u) w = (Return (), w1)"
      "copy2 (source_bat u) (dest_bat u) w1 = (Return (), w2)"
      "update_dependencies_file u w2 = (Return (), w3)"
      "update u w = (Return True, print UpdatedOK w3)"
      "copy_files u w = (Return (), w2)"
proof (cases "exists_path (source_updater u) w")
  case False
  then show ?thesis
    using source_updater_missing by (simp add: update_def update_try_def validate_paths_def)
next
  case su: True
  show ?thesis
  proof (cases "exists_path (source_bat u) w")
    case False
    with su show ?thesis
      using source_bat_missing by (simp add: update_def update_try_def validate_paths_def)
  next
    case sb: True
    show ?thesis
    proof (cases "eligible u w")
      case False
      with su sb show ?thesis
        using ineligible
        by (simp add: update_def update_try_def validate_paths_def should_update_eq)
    next
      case el: True
      obtain r1 w1 where c1: "copy2 (source_updater u) (dest_updater u) w = (r1, w1)"
        by (cases "copy2 (source_updater u) (dest_updater u) w")
      show ?thesis
      proof (cases r1)
        case (Raise e)
        with c1 obtain oe where "w1 = w" "e = OS oe"
          using copy2_Raise by blast
        with su sb el c1 Raise show ?thesis
          using first_copy_failed [of oe]
          by (simp add: update_def update_try_def validate_paths_def should_update_eq
              copy_files_def copy_files_try_def)
      next
        case r1: (Return x1)
        obtain r2 w2 where c2: "copy2 (source_bat u) (dest_bat u) w1 = (r2, w2)"
          by (cases "copy2 (source_bat u) (dest_bat u) w1")
        show ?thesis
        proof (cases r2)
          case (Raise e)
          with c2 obtain oe where "w2 = w1" "e = OS oe"
            using copy2_Raise by blast
          with su sb el c1 r1 c2 Raise show ?thesis
            using second_copy_failed [of w1 oe]
            by (simp add: update_def update_try_def validate_paths_def should_update_eq
                copy_files_def copy_files_try_def)
        next
          case r2: (Return x2)
          obtain w3 where d: "update_dependencies_file u w2 = (Return (), w3)"
            by (cases rule: update_dependencies_file_cases [of u w2]) auto
          with su sb el c1 r1 c2 r2 show ?thesis
            using migrated [of w1 w2 w3]
            by (simp add: update_def update_try_def validate_paths_def should_update_eq
                copy_files_def copy_files_try_def)
        qed
      qed
    qed
  qed
qed

lemma written_paths_simps [simp]:
  "written_paths [] = []"
  "written_paths (Wrote p c # es) = p # written_paths es"
  "written_paths (Copied src dst # es) = dst # written_paths es"
  "written_paths (Printed l # es) = written_paths es"
  by (simp_all add: written_paths_def List.map_filter_simps)

lemma printed_simps [simp]:
  "printed [] = []"
  "printed (Wrote p c # es) = printed es"
  "printed (Copied src dst # es) = printed es"
  "printed (Printed l # es) = l # printed es"
  by (simp_all add: printed_def List.map_filter_simps)

lemma print_files [simp]: "files (print l w) = files w"
  by (simp add: print_def)

lemma print_trace [simp]: "trace (print l w) = trace w @ [Printed l]"
  by (simp add: print_def)

lemma read_bytes_cong: "files w' p = files w p \<Longrightarrow> read_bytes p w' = read_bytes p w"
  by (simp add: read_bytes_def)

lemma store_cong: "files w' p = files w p \<Longrightarrow> store p c w' = store p c w"
  by (simp add: store_def)

lemma readable_content_cong:
  "files w' p = files w p \<Longrightarrow> readable_content p w' = readable_content p w"
  by (simp add: readable_content_def)

lemma store_Return_readable:
  "store p c w = Return n \<Longrightarrow> readable_content p w = Some c0 \<Longrightarrow> n = File c None None"
  by (auto simp: store_def readable_content_def split: node.splits option.splits)

lemma eligible_readable: "eligible u w \<Longrightarrow> \<exists>c. readable_content (dest_bat u) w = Some c"
  by (auto simp: eligible_def readable_content_def split: node.splits option.splits)

lemma copy2_cong:
  "files w' src = files w src \<Longrightarrow> files w' dst = files w dst \<Longrightarrow>
     fst (copy2 src dst w') = fst (copy2 src dst w)"
  by (simp add: copy2_def read_bytes_cong [of w' src w] store_cong [of w' dst w]
      split: outcome.splits)

lemma run_cases
  [consumes 1, case_names source_updater_missing source_bat_missing ineligible
     first_copy_failed second_copy_failed patch_skipped patch_written patch_warned]:
  assumes d: "distinct [source_updater u, source_bat u, dest_updater u, dest_bat u, dest_bat_deps u]"
  obtains
    (source_updater_missing) "\<not> exists_path (source_updater u) w"
      "update u w = (Return False, print (UpdateFailed (SourceUpdaterNotFound (source_updater u))) w)"
  | (source_bat_missing) "exists_path (source_updater u) w" "\<not> exists_path (source_bat u) w"
      "update u w = (Return False, print (UpdateFailed (SourceBatNotFound (source_bat u))) w)"
  | (ineligible) "exists_path (source_updater u) w" "exists_path (source_bat u) w"
      "\<not> eligible u w" "update u w = (Return False, w)"
  | (first_copy_failed) oe where
      "exists_path (source_updater u) w" "exists_path (source_bat u) w" "eligible u w"
      "copy2 (source_updater u) (dest_updater u) w = (Raise (OS oe), w)"
      "update u w = (Return False, print (UpdateFailed (FailedToCopy oe)) w)"
      "fst (copy_files u w) = Raise (UpdaterError (FailedToCopy oe))"
  | (second_copy_failed) c1 n1 oe where
      "exists_path (source_updater u) w" "exists_path (source_bat u) w" "eligible u w"
      "read_bytes (source_updater u) w = Return c1"
      "store (dest_updater u) c1 w = Return n1"
      "copy2 (source_bat u) (dest_bat u) w = (Raise (OS oe), w)"
      "update u w = (Return False, print (UpdateFailed (FailedToCopy oe))
         (w\<lparr>files := (files w)(dest_updater u := n1),
            trace := trace w @ [Copied (source_updater u) (dest_updater u)]\<rparr>))"
      "fst (copy_files u w) = Raise (UpdaterError (FailedToCopy oe))"
  | (patch_skipped) c1 n1 c2 where
      "exists_path (source_updater u) w" "exists_path (source_bat u) w" "eligible u w"
      "read_bytes (source_updater u) w = Return c1"
      "store (dest_updater u) c1 w = Return n1"
      "read_bytes (source_bat u) w = Return c2"
      "store (dest_bat u) c2 w = Return (File c2 None None)"
      "readable_content (dest_bat_deps u) w = None"
      "update u w = (Return True,
         w\<lparr>files := (files w)(dest_updater u := n1, dest_bat u := File c2 None None),
           trace := trace w @ [Copied (source_updater u) (dest_updater u),
             Copied (source_bat u) (dest_bat u), Printed UpdatedOK]\<rparr>)"
      "fst (copy_files u w) = Return ()"
  | (patch_written) c1 n1 c2 c where
      "exists_path (source_updater u) w" "exists_path (source_bat u) w" "eligible u w"
      "read_bytes (source_updater u) w = Return c1"
      "store (dest_updater u) c1 w = Return n1"
      "read_bytes (source_bat u) w = Return c2"
      "store (dest_bat u) c2 w = Return (File c2 None None)"
      "readable_content (dest_bat_deps u) w = Some c"
      "store (dest_bat_deps u) (bytes_replace c OLD_CONTENT NEW_CONTENT) w =
         Return (File (bytes_replace c OLD_CONTENT NEW_CONTENT) None None)"
      "update u w = (Return True,
         w\<lparr>files := (files w)(dest_updater u := n1, dest_bat u := File c2 None None,
             dest_bat_deps u := File (bytes_replace c OLD_CONTENT NEW_CONTENT) None None),
           trace := trace w @ [Copied (source_updater u) (dest_updater u),
             Copied (source_bat u) (dest_bat u),
             Wrote (dest_bat_deps u) (bytes_replace c OLD_CONTENT NEW_CONTENT),
             Printed UpdatedOK]\<rparr>)"
      "fst (copy_files u w) = Return ()"
  | (patch_warned) c1 n1 c2 c e where
      "exists_path (source_updater u) w" "exists_path (source_bat u) w" "eligible u w"
      "read_bytes (source_updater u) w = Return c1"
      "store (dest_updater u) c1 w = Return n1"
      "read_bytes (source_bat u) w = Return c2"
      "store (dest_bat u) c2 w = Return (File c2 None None)"
      "readable_content (dest_bat_deps u) w = Some c"
      "store (dest_bat_deps u) (bytes_replace c OLD_CONTENT NEW_CONTENT) w = Raise e"
      "update u w = (Return True,
         w\<lparr>files := (files w)(dest_updater u := n1, dest_bat u := File c2 None None),
           trace := trace w @ [Copied (source_updater u) (dest_updater u),
             Copied (source_bat u) (dest_bat u),
             Printed (WriteWarning (dest_bat_deps u) e), Printed UpdatedOK]\<rparr>)"
      "fst (copy_files u w) = Return ()"
proof -
  have ne: "source_bat u \<noteq> dest_updater u" "dest_updater u \<noteq> source_bat u"
    "dest_bat u \<noteq> dest_updater u" "dest_updater u \<noteq> dest_bat u"
    "dest_bat_deps u \<noteq> dest_updater u" "dest_updater u \<noteq> dest_bat_deps u"
    "dest_bat_deps u \<noteq> dest_bat u" "dest_bat u \<noteq> dest_bat_deps u"
    using d by auto
  show ?thesis
  proof (cases rule: update_cases [of u w])
  case source_updater_missing
  then show ?thesis using that(1) by blast
next
  case source_bat_missing
  then show ?thesis using that(2) by blast
next
  case ineligible
  then show ?thesis using that(3) by blast
next
  case (first_copy_failed oe)
  then show ?thesis using that(4) [of oe] by simp
next
  case (second_copy_failed w1 oe)
  from second_copy_failed(4) obtain c1 n1 where c1: "read_bytes (source_updater u) w = Return c1"
    "store (dest_updater u) c1 w = Return n1"
    and w1: "w1 = w\<lparr>files := (files w)(dest_updater u := n1),
            trace := trace w @ [Copied (source_updater u) (dest_updater u)]\<rparr>"
    using copy2_Return by blast
  have "fst (copy2 (source_bat u) (dest_bat u) w) = fst (copy2 (source_bat u) (dest_bat u) w1)"
    using ne by (intro copy2_cong [symmetric]) (simp_all add: w1)
  then have "fst (copy2 (source_bat u) (dest_bat u) w) = Raise (OS oe)"
    using second_copy_failed(5) by simp
  then have "copy2 (source_bat u) (dest_bat u) w = (Raise (OS oe), w)"
    using copy2_Raise [of "source_bat u" "dest_bat u" w "OS oe"]
    by (cases "copy2 (source_bat u) (dest_bat u) w") auto
  with second_copy_failed c1 w1 show ?thesis using that(5) [of c1 n1 oe] by simp
next
  case (migrated w1 w2 w3)
  from migrated(4) obtain c1 n1 where c1: "read_bytes (source_updater u) w = Return c1"
    "store (dest_updater u) c1 w = Return n1"
    and w1: "w1 = w\<lparr>files := (files w)(dest_updater u := n1),
            trace := trace w @ [Copied (source_updater u) (dest_updater u)]\<rparr>"
    using copy2_Return by blast
  from migrated(5) obtain c2 n2 where c2': "read_bytes (source_bat u) w1 = Return c2"
    "store (dest_bat u) c2 w1 = Return n2"
    and w2: "w2 = w1\<lparr>files := (files w1)(dest_bat u := n2),
            trace := trace w1 @ [Copied (source_bat u) (dest_bat u)]\<rparr>"
    using copy2_Return by blast
  have c2: "read_bytes (source_bat u) w = Return c2" "store (dest_bat u) c2 w = Return n2"
    using c2' ne read_bytes_cong [of w1 "source_bat u" w] store_cong [of w1 "dest_bat u" w c2]
    by (simp_all add: w1)
  have n2: "n2 = File c2 None None"
    using c2(2) eligible_readable [OF migrated(3)] store_Return_readable by blast
  have w2': "w2 = w\<lparr>files := (files w)(dest_updater u := n1, dest_bat u := File c2 None None),
      trace := trace w @ [Copied (source_updater u) (dest_updater u),
        Copied (source_bat u) (dest_bat u)]\<rparr>"
    by (simp add: w2 w1 n2)
  have deps: "files w2 (dest_bat_deps u) = files w (dest_bat_deps u)"
    using ne by (simp add: w2')
  show ?thesis
  proof (cases rule: update_dependencies_file_cases [of u w2])
    case skipped
    then have "readable_content (dest_bat_deps u) w = None"
      using readable_content_cong [OF deps] by simp
    moreover have "w3 = w2" using skipped migrated(6) by simp
    ultimately show ?thesis
      using that(6) [of c1 n1 c2] migrated c1 c2 n2 by (simp add: w2' print_def)
  next
    case (written c n)
    then have rc: "readable_content (dest_bat_deps u) w = Some c"
      using readable_content_cong [OF deps] by simp
    have st: "store (dest_bat_deps u) (bytes_replace c OLD_CONTENT NEW_CONTENT) w = Return n"
      using written(2) store_cong [OF deps] by simp
    then have n: "n = File (bytes_replace c OLD_CONTENT NEW_CONTENT) None None"
      using rc store_Return_readable by blast
    have "w3 = w2\<lparr>files := (files w2)(dest_bat_deps u := n),
          trace := trace w2 @ [Wrote (dest_bat_deps u) (bytes_replace c OLD_CONTENT NEW_CONTENT)]\<rparr>"
      using written(3) migrated(6) by simp
    then show ?thesis
      using that(7) [of c1 n1 c2 c] migrated c1 c2 n2 rc st n by (simp add: w2' print_def)
  next
    case (warned c e)
    then have rc: "readable_content (dest_bat_deps u) w = Some c"
      using readable_content_cong [OF deps] by simp
    have st: "store (dest_bat_deps u) (bytes_replace c OLD_CONTENT NEW_CONTENT) w = Raise e"
      using warned(2) store_cong [OF deps] by simp
    have "w3 = print (WriteWarning (dest_bat_deps u) e) w2"
      using warned(3) migrated(6) by simp
    then show ?thesis
      using that(8) [of c1 n1 c2 c e] migrated c1 c2 n2 rc st by (simp add: w2' print_def)
  qed
qed
qed

subsection \<open>The concrete installation\<close>

lemma demo_world_files [simp]:
  "files (demo_world su sb du db deps) (source_updater (WindowsUpdater demo_base)) = su"
  "files (demo_world su sb du db deps) (source_bat (WindowsUpdater demo_base)) = sb"
  "files (demo_world su sb du db deps) (dest_updater (WindowsUpdater demo_base)) = du"
  "files (demo_world su sb du db deps) (dest_bat (WindowsUpdater demo_base)) = db"
  "files (demo_world su sb du db deps) (dest_bat_deps (WindowsUpdater demo_base)) = deps"
  using path_distinct [of demo_base] by (auto simp: demo_world_def)

lemma demo_world_trace [simp]: "trace (demo_world su sb du db deps) = []"
  by (simp add: demo_world_def)

lemma prefix_legacy [simp]: "prefix EXPECTED_BAT_PREFIX OLD_CONTENT"
  by (simp add: EXPECTED_BAT_PREFIX_def OLD_CONTENT_def)

lemma not_prefix_new_launcher [simp]: "\<not> prefix EXPECTED_BAT_PREFIX new_launcher"
  by (simp add: EXPECTED_BAT_PREFIX_def new_launcher_def)

lemmas run_defs = update_windows_updater_def update_def update_try_def validate_paths_def
  exists_path_def should_update_eq eligible_def copy_files_def copy_files_try_def copy2_def
  read_bytes_def store_def update_dependencies_file_def read_file_content_eq
  readable_content_def write_file_content_eq print_def

lemma demo_ne [simp]:
  "source_bat (WindowsUpdater demo_base) \<noteq> dest_updater (WindowsUpdater demo_base)"
  "dest_bat (WindowsUpdater demo_base) \<noteq> dest_updater (WindowsUpdater demo_base)"
  "dest_bat_deps (WindowsUpdater demo_base) \<noteq> dest_updater (WindowsUpdater demo_base)"
  "dest_bat_deps (WindowsUpdater demo_base) \<noteq> dest_bat (WindowsUpdater demo_base)"
  using path_distinct [of demo_base] by auto

lemma replace_OLD [simp]: "bytes_replace OLD_CONTENT OLD_CONTENT NEW_CONTENT = NEW_CONTENT"
  by (simp add: OLD_CONTENT_def)



subsection \<open>No exception escapes\<close>



subsection \<open>Fail-closed eligibility\<close>




subsection \<open>Missing sources\<close>



subsection \<open>The frame of a run\<close>



subsection \<open>The call contract\<close>




subsection \<open>A failed primary copy\<close>



subsection \<open>A failed patch\<close>




subsection \<open>Facts about bytes.replace\<close>












lemma OLD_CONTENT_nonempty [simp]: "OLD_CONTENT \<noteq> []"
  by (simp add: OLD_CONTENT_def)







lemma update_ineligible:
  "exists_path (source_updater u) w \<Longrightarrow> exists_path (source_bat u) w \<Longrightarrow> \<not> eligible u w \<Longrightarrow>
     update u w = (Return False, w)"
  by (simp add: update_def update_try_def validate_paths_def should_update_eq)

lemma copy2_succeeds:
  "readable src w \<Longrightarrow> writable dst w \<Longrightarrow> fst (copy2 src dst w) = Return ()"
  by (auto simp: readable_def writable_def copy2_def read_bytes_def store_def
      split: node.splits option.splits)

subsection \<open>The patch\<close>





subsection \<open>Running twice\<close>

text \<open>
  C7 as stated does not hold. The sentinel after the first run is a copy of the source
  launcher batch file; when that file itself begins with the legacy prefix, the state
  is a valid starting state, and both the first and the second run return \<open>True\<close>.
\<close>

theorem second_run_counterexample:
  "valid_start (WindowsUpdater demo_base) legacy_release_world \<and>
   fst (update_windows_updater demo_base legacy_release_world) = Return True \<and>
   fst (update_windows_updater demo_base
      (snd (update_windows_updater demo_base legacy_release_world))) = Return True"
  by (simp add: legacy_release_world_def valid_start_def readable_def writable_def
      eligible_def exists_path_def run_defs)

text \<open>
  C7, amended: from a valid starting state whose source launcher batch file does not
  begin with the legacy prefix, the first run returns \<open>True\<close> and the second run
  returns \<open>False\<close> and changes nothing.
\<close>

theorem second_run_ineligible:
  assumes "valid_start (WindowsUpdater bp) w"
    and "files w (source_bat (WindowsUpdater bp)) = File c rf wr"
    and "\<not> prefix EXPECTED_BAT_PREFIX c"
  shows "fst (update_windows_updater bp w) = Return True \<and>
     update_windows_updater bp (snd (update_windows_updater bp w))
       = (Return False, snd (update_windows_updater bp w))"
proof -
  let ?u = "WindowsUpdater bp"
  from assms(1) have v: "readable (source_updater ?u) w" "readable (source_bat ?u) w"
    "eligible ?u w" "writable (dest_updater ?u) w" "writable (dest_bat ?u) w"
    by (simp_all add: valid_start_def)
  have ex: "exists_path (source_updater ?u) w" "exists_path (source_bat ?u) w"
    using v(1,2) by (auto simp: readable_def exists_path_def split: node.splits)
  have c1: "fst (copy2 (source_updater ?u) (dest_updater ?u) w) = Return ()"
    and c2: "fst (copy2 (source_bat ?u) (dest_bat ?u) w) = Return ()"
    using v by (simp_all add: copy2_succeeds)
  have rb: "read_bytes (source_bat ?u) w = Return c"
    using v(2) assms(2) by (simp add: readable_def read_bytes_def split: option.splits)
  have second: "update ?u w' = (Return False, w')"
    if "files w' (source_updater ?u) = files w (source_updater ?u)"
      "files w' (source_bat ?u) = files w (source_bat ?u)"
      "files w' (dest_bat ?u) = File c None None" for w'
  proof (rule update_ineligible)
    show "exists_path (source_updater ?u) w'" "exists_path (source_bat ?u) w'"
      using ex that(1,2) by (simp_all add: exists_path_def)
    show "\<not> eligible ?u w'"
      using that(3) assms(3) by (simp add: eligible_def)
  qed
  show ?thesis
    using path_distinct [of bp]
  proof (cases rule: run_cases [of ?u w])
    case (patch_skipped c1 n1 c2)
    then show ?thesis
      using rb by (simp add: update_windows_updater_def second path_neqs)
  next
    case (patch_written c1 n1 c2 c')
    then show ?thesis
      using rb by (simp add: update_windows_updater_def second path_neqs)
  next
    case (patch_warned c1 n1 c2 c' e)
    then show ?thesis
      using rb by (simp add: update_windows_updater_def second path_neqs)
  qed (use ex v c1 c2 in simp_all)
qed

theorem second_run_ineligible_witness:
  "fst (update_windows_updater demo_base
      (demo_world (File new_script None None) (File new_launcher None None)
         (Absent None) (File OLD_CONTENT None None) (File OLD_CONTENT None None)))
     = Return True \<and>
   fst (update_windows_updater demo_base
      (snd (update_windows_updater demo_base
         (demo_world (File new_script None None) (File new_launcher None None)
            (Absent None) (File OLD_CONTENT None None) (File OLD_CONTENT None None)))))
     = Return False"
proof -
  let ?w = "demo_world (File new_script None None) (File new_launcher None None)
         (Absent None) (File OLD_CONTENT None None) (File OLD_CONTENT None None)"
  have v: "valid_start (WindowsUpdater demo_base) ?w"
    by (simp add: valid_start_def readable_def writable_def eligible_def exists_path_def)
  have f: "files ?w (source_bat (WindowsUpdater demo_base)) = File new_launcher None None"
    by simp
  show ?thesis
    using second_run_ineligible [OF v f] by simp
qed

end
